theory Spec2Isabelle
  imports Main "HOL-Library.Word"
begin

unbundle bit_operations_syntax

section \<open>Domain layer\<close>

text \<open>
  The receiver of \<^verbatim>\<open>function.go\<close> and its package variants
  (\<^verbatim>\<open>internal/domain\<close>, \<^verbatim>\<open>internal/services\<close>,
  \<^verbatim>\<open>internal/handlers\<close>, \<^verbatim>\<open>internal/repositories\<close>).
  Byte slices and Go strings are \<open>string\<close> (a list of bytes). \<open>int64\<close> is a
  64-bit word; Go's \<open>int\<close> is 64 bits wide on the deployment target and is a 64-bit
  word as well. A Go \<open>error\<close> is its message; \<open>nil\<close> is \<open>None\<close>.
\<close>

type_synonym int64 = "64 word"
type_synonym byte = "8 word"

record AnalyticsRecord =
  RequestID :: string
  Query :: string
  MatchType :: string
  MatchScore :: int64
  Reasoning :: string
  VectorMatches :: int64
  SessionID :: string
  Week :: string
  Timestamp :: int64

text \<open>The envelope's own \<open>Timestamp\<close> field is named \<open>EnvelopeTimestamp\<close> here,
  the record's field keeps the name.\<close>

record WebhookPayload =
  EventType :: string
  EnvelopeTimestamp :: int64
  Data :: AnalyticsRecord

datatype error = Err string

text \<open>\<^verbatim>\<open>fmt.Errorf("<prefix>: %w", err)\<close>\<close>

fun Errorf_wrap :: "string \<Rightarrow> error \<Rightarrow> error" where
  "Errorf_wrap prefix (Err m) = Err (prefix @ '': '' @ m)"

section \<open>The world outside the process\<close>

text \<open>
  Values a \<^verbatim>\<open>map[string]interface{}\<close> of the repositories holds: strings,
  \<open>int\<close>s and \<open>int64\<close>s. A document is such a map.
\<close>

datatype fsvalue = VString string | VInt int64 | VInt64 int64

type_synonym document = "string \<rightharpoonup> fsvalue"

text \<open>Arguments of \<^verbatim>\<open>Logger.Info(msg, args...)\<close>: the sources pass strings and \<open>nil\<close>.\<close>

datatype logarg = Str string | NilArg

datatype log_entry = ErrorLog string error | InfoLog string "logarg list"

text \<open>
  Every effect of the program on its collaborators, in the order it happens: a
  consultation of the rate limiter (with its answer), a read of the request body, a
  line handed to the logger, a \<^verbatim>\<open>Set\<close> request on a Firestore document
  (collection, document id, data) and a \<^verbatim>\<open>Push\<close> request on a Realtime
  Database node (path, data).
\<close>

datatype event =
    RateChecked bool
  | BodyRead
  | Logged log_entry
  | DocSet string string document
  | Pushed string document

text \<open>
  The state the handler runs against: the tokens the limiter holds at this instant,
  the Firestore documents by collection and document id, the children of the
  Realtime Database node \<^verbatim>\<open>analytics/live\<close> in push order (each under a
  generated key of its own), and the history of effects.
\<close>

record world =
  tokens :: nat
  docs :: "string \<times> string \<rightharpoonup> document"
  live :: "document list"
  events :: "event list"

definition emit :: "event \<Rightarrow> world \<Rightarrow> world" where
  "emit e w = w\<lparr>events := events w @ [e]\<rparr>"

text \<open>The storage requests among a history of effects.\<close>

fun is_write :: "event \<Rightarrow> bool" where
  "is_write (DocSet c k d) = True"
| "is_write (Pushed p d) = True"
| "is_write e = False"

definition writes_of :: "world \<Rightarrow> event list" where
  "writes_of w = filter is_write (events w)"

section \<open>Service layer\<close>

subsection \<open>SimpleLogger\<close>

definition Logger_Error :: "string \<Rightarrow> error \<Rightarrow> world \<Rightarrow> world" where
  "Logger_Error msg err w = emit (Logged (ErrorLog msg err)) w"

definition Logger_Info :: "string \<Rightarrow> logarg list \<Rightarrow> world \<Rightarrow> world" where
  "Logger_Info msg args w = emit (Logged (InfoLog msg args)) w"

subsection \<open>HMACValidator\<close>

text \<open>
  \<^verbatim>\<open>hex.EncodeToString\<close> of the standard library: two characters of the table
  \<^verbatim>\<open>0123456789abcdef\<close> for each byte, high nibble first.
\<close>

definition hextable :: string where
  "hextable = ''0123456789abcdef''"

definition hex_EncodeToString :: "byte list \<Rightarrow> string" where
  "hex_EncodeToString src =
     concat (map (\<lambda>v. [hextable ! unat (drop_bit 4 v), hextable ! unat (v AND 0x0f)]) src)"

text \<open>
  \<^verbatim>\<open>HMACValidator.Validate\<close>. The keyed hash (\<^verbatim>\<open>hmac.New(sha256.New, secret)\<close>,
  \<^verbatim>\<open>Write\<close>, \<^verbatim>\<open>Sum(nil)\<close>) is the parameter \<open>mac\<close>, from the key and the
  message to the digest bytes; \<^verbatim>\<open>hmac.Equal\<close> is equality of the two byte
  slices. The function reads and writes no state.
\<close>

definition HMACValidator_Validate ::
  "(string \<Rightarrow> string \<Rightarrow> byte list) \<Rightarrow> string \<Rightarrow> string \<Rightarrow> string \<Rightarrow> error option" where
  "HMACValidator_Validate mac secret payload signature =
     (let expected = hex_EncodeToString (mac secret payload) in
      if \<not> (signature = expected) then Some (Err ''invalid signature'') else None)"

subsection \<open>WebhookService\<close>

definition validateAnalyticsRecord :: "AnalyticsRecord \<Rightarrow> error option" where
  "validateAnalyticsRecord rec =
     (if RequestID rec = [] then Some (Err ''requestId is required'')
      else if Query rec = [] then Some (Err ''query is required'')
      else if Timestamp rec = 0 then Some (Err ''timestamp is required'')
      else None)"

text \<open>
  \<^verbatim>\<open>WebhookService.Process\<close> over its three collaborators: the signature
  validator, \<^verbatim>\<open>json.Unmarshal\<close> into a \<open>WebhookPayload\<close> (the parameter
  \<open>unmarshal\<close>) and the analytics writer.
\<close>

definition Process ::
  "(string \<Rightarrow> string \<Rightarrow> error option) \<Rightarrow> (string \<Rightarrow> error + WebhookPayload) \<Rightarrow>
   (AnalyticsRecord \<Rightarrow> world \<Rightarrow> error option \<times> world) \<Rightarrow>
   string \<Rightarrow> string \<Rightarrow> world \<Rightarrow> error option \<times> world" where
  "Process validate unmarshal write payload signature w =
     (case validate payload signature of
        Some err \<Rightarrow>
          (Some (Errorf_wrap ''webhook validation failed'' err),
           Logger_Error ''webhook validation failed'' err w)
      | None \<Rightarrow>
          (case unmarshal payload of
             Inl err \<Rightarrow>
               (Some (Errorf_wrap ''failed to parse webhook'' err),
                Logger_Error ''failed to parse webhook payload'' err w)
           | Inr webhookPayload \<Rightarrow>
               (case validateAnalyticsRecord (Data webhookPayload) of
                  Some err \<Rightarrow>
                    (Some (Errorf_wrap ''invalid analytics record'' err),
                     Logger_Error ''analytics record validation failed'' err w)
                | None \<Rightarrow>
                    (case write (Data webhookPayload) w of
                       (Some err, w') \<Rightarrow>
                         (Some (Errorf_wrap ''failed to store analytics'' err),
                          Logger_Error ''failed to write analytics'' err w')
                     | (None, w') \<Rightarrow>
                         (None,
                          Logger_Info ''webhook processed successfully''
                            [Str ''requestId'', Str (RequestID (Data webhookPayload))] w')))))"

section \<open>Repository layer\<close>

text \<open>
  The map both repositories build from a record; \<open>received\<close> is the clock reading
  (\<^verbatim>\<open>time.Now().Unix()\<close> for Firestore, \<^verbatim>\<open>UnixMilli()\<close> for the Realtime
  Database).
\<close>

definition record_data :: "AnalyticsRecord \<Rightarrow> int64 \<Rightarrow> document" where
  "record_data rec received =
     [''requestId'' \<mapsto> VString (RequestID rec),
      ''query'' \<mapsto> VString (Query rec),
      ''matchType'' \<mapsto> VString (MatchType rec),
      ''matchScore'' \<mapsto> VInt (MatchScore rec),
      ''reasoning'' \<mapsto> VString (Reasoning rec),
      ''vectorMatches'' \<mapsto> VInt (VectorMatches rec),
      ''sessionId'' \<mapsto> VString (SessionID rec),
      ''week'' \<mapsto> VString (Week rec),
      ''timestamp'' \<mapsto> VInt64 (Timestamp rec),
      ''receivedAt'' \<mapsto> VInt64 received]"

text \<open>
  The document store's \<^verbatim>\<open>Collection(c).Doc(id).Set(ctx, data)\<close>: the request is
  issued; when the backend answers with an error (\<open>outcome\<close>) nothing is stored,
  otherwise the document at that collection and id is replaced by \<open>data\<close>.
\<close>

definition docRef_Set ::
  "error option \<Rightarrow> string \<Rightarrow> string \<Rightarrow> document \<Rightarrow> world \<Rightarrow> error option \<times> world" where
  "docRef_Set outcome collection docid data w =
     (let w' = emit (DocSet collection docid data) w in
      case outcome of
        Some err \<Rightarrow> (Some err, w')
      | None \<Rightarrow> (None, w'\<lparr>docs := (docs w')((collection, docid) \<mapsto> data)\<rparr>))"

text \<open>
  The Realtime Database's \<^verbatim>\<open>NewRef(path).Push(ctx, data)\<close>: a new child of the
  node, under a key the database generates.
\<close>

definition ref_Push ::
  "error option \<Rightarrow> string \<Rightarrow> document \<Rightarrow> world \<Rightarrow> error option \<times> world" where
  "ref_Push outcome path data w =
     (let w' = emit (Pushed path data) w in
      case outcome of
        Some err \<Rightarrow> (Some err, w')
      | None \<Rightarrow> (None, w'\<lparr>live := live w' @ [data]\<rparr>))"

text \<open>\<^verbatim>\<open>FirestoreRepository.Write\<close>; \<open>now\<close> is \<^verbatim>\<open>time.Now().Unix()\<close>.\<close>

definition FirestoreRepository_Write ::
  "int64 \<Rightarrow> error option \<Rightarrow> AnalyticsRecord \<Rightarrow> world \<Rightarrow> error option \<times> world" where
  "FirestoreRepository_Write now outcome rec w =
     (case docRef_Set outcome ''analytics'' (RequestID rec) (record_data rec now) w of
        (Some err, w') \<Rightarrow> (Some (Errorf_wrap ''failed to write analytics to Firestore'' err), w')
      | (None, w') \<Rightarrow> (None, w'))"

text \<open>\<^verbatim>\<open>FirebaseRepository.Write\<close>; \<open>now\<close> is \<^verbatim>\<open>time.Now().UnixMilli()\<close>.\<close>

definition FirebaseRepository_Write ::
  "int64 \<Rightarrow> error option \<Rightarrow> AnalyticsRecord \<Rightarrow> world \<Rightarrow> error option \<times> world" where
  "FirebaseRepository_Write now outcome rec w =
     (case ref_Push outcome ''analytics/live'' (record_data rec now) w of
        (Some err, w') \<Rightarrow> (Some (Errorf_wrap ''failed to write analytics'' err), w')
      | (None, w') \<Rightarrow> (None, w'))"

section \<open>Handler layer\<close>

text \<open>
  A request as the handlers read it: the method, the header map, what
  \<^verbatim>\<open>io.ReadAll(r.Body)\<close> returns (the bytes and the error) and the remote
  address. A response as the handlers write it.
\<close>

record request =
  Method :: string
  Header :: "string \<rightharpoonup> string list"
  Body :: string
  BodyErr :: "error option"
  RemoteAddr :: string

record response =
  status :: nat
  headers :: "string \<rightharpoonup> string"
  body :: string

definition StatusOK :: nat where "StatusOK = 200"
definition StatusBadRequest :: nat where "StatusBadRequest = 400"
definition StatusUnauthorized :: nat where "StatusUnauthorized = 401"
definition StatusMethodNotAllowed :: nat where "StatusMethodNotAllowed = 405"
definition StatusTooManyRequests :: nat where "StatusTooManyRequests = 429"

definition MethodPost :: string where "MethodPost = ''POST''"

text \<open>The response writer before anything is written to it.\<close>

definition new_response :: response where
  "new_response = \<lparr>status = 0, headers = Map.empty, body = []\<rparr>"

definition Header_Set :: "string \<Rightarrow> string \<Rightarrow> response \<Rightarrow> response" where
  "Header_Set k v resp = resp\<lparr>headers := (headers resp)(k \<mapsto> v)\<rparr>"

definition WriteHeader :: "nat \<Rightarrow> response \<Rightarrow> response" where
  "WriteHeader code resp = resp\<lparr>status := code\<rparr>"

definition Write_body :: "string \<Rightarrow> response \<Rightarrow> response" where
  "Write_body bytes resp = resp\<lparr>body := body resp @ bytes\<rparr>"

text \<open>\<^verbatim>\<open>http.Error(w, msg, code)\<close>: plain-text headers, the status, the message and
  a newline.\<close>

definition http_Error :: "string \<Rightarrow> nat \<Rightarrow> response \<Rightarrow> response" where
  "http_Error msg code resp =
     Write_body (msg @ [CHR 0x0A])
       (WriteHeader code
         (Header_Set ''X-Content-Type-Options'' ''nosniff''
           (Header_Set ''Content-Type'' ''text/plain; charset=utf-8''
             (resp\<lparr>headers := (headers resp)(''Content-Length'' := None)\<rparr>))))"

text \<open>\<^verbatim>\<open>r.Header.Get(key)\<close>: the first value under the key, the empty string when
  there is none.\<close>

definition Header_Get :: "(string \<rightharpoonup> string list) \<Rightarrow> string \<Rightarrow> string" where
  "Header_Get h key =
     (case h key of None \<Rightarrow> [] | Some vs \<Rightarrow> (case vs of [] \<Rightarrow> [] | v # rest \<Rightarrow> v))"

definition strings_HasPrefix :: "string \<Rightarrow> string \<Rightarrow> bool" where
  "strings_HasPrefix s prefix =
     (length prefix \<le> length s \<and> take (length prefix) s = prefix)"

definition strings_TrimPrefix :: "string \<Rightarrow> string \<Rightarrow> string" where
  "strings_TrimPrefix s prefix =
     (if strings_HasPrefix s prefix then drop (length prefix) s else s)"

definition io_ReadAll :: "request \<Rightarrow> world \<Rightarrow> (string \<times> error option) \<times> world" where
  "io_ReadAll r w = ((Body r, BodyErr r), emit BodyRead w)"

text \<open>
  \<^verbatim>\<open>RateLimiter.Allow\<close> hands the question to the token bucket of
  \<^verbatim>\<open>golang.org/x/time/rate\<close>: a token is taken when the bucket holds one. The
  refill between two requests is a step of the environment on \<open>tokens\<close>.
\<close>

definition RateLimiter_Allow :: "world \<Rightarrow> bool \<times> world" where
  "RateLimiter_Allow w =
     (if 0 < tokens w then (True, emit (RateChecked True) (w\<lparr>tokens := tokens w - 1\<rparr>))
      else (False, emit (RateChecked False) w))"

definition ack_body :: string where
  \<open>ack_body = ''{"success":true,"status":"ok"}''\<close>

text \<open>\<^verbatim>\<open>WebhookHandler.ServeHTTP\<close> of \<^verbatim>\<open>function.go\<close>, the rate-limited handler.\<close>

definition ServeHTTP ::
  "(string \<Rightarrow> string \<Rightarrow> world \<Rightarrow> error option \<times> world) \<Rightarrow> request \<Rightarrow> world \<Rightarrow> response \<times> world" where
  "ServeHTTP process r w =
     (case RateLimiter_Allow w of
        (False, w1) \<Rightarrow>
          (http_Error ''Rate limit exceeded'' StatusTooManyRequests
             (Header_Set ''X-RateLimit-Retry-After'' ''1'' new_response),
           Logger_Info ''rate limit exceeded'' [Str (RemoteAddr r)] w1)
      | (True, w1) \<Rightarrow>
          if Method r \<noteq> MethodPost then
            (http_Error ''Method not allowed'' StatusMethodNotAllowed new_response, w1)
          else
            (case io_ReadAll r w1 of
               ((bytes, Some err), w2) \<Rightarrow>
                 (http_Error ''Failed to read body'' StatusBadRequest new_response,
                  Logger_Error ''failed to read request body'' err w2)
             | ((bytes, None), w2) \<Rightarrow>
                 (let signature = Header_Get (Header r) ''X-Webhook-Signature'' in
                  if signature = [] then
                    (http_Error ''Missing X-Webhook-Signature header'' StatusBadRequest new_response,
                     Logger_Info ''missing webhook signature header'' [NilArg] w2)
                  else
                    (let signature = strings_TrimPrefix signature ''sha256='' in
                     case process bytes signature w2 of
                       (Some err, w3) \<Rightarrow>
                         (http_Error ''Failed to process webhook'' StatusUnauthorized new_response,
                          Logger_Error ''failed to process webhook'' err w3)
                     | (None, w3) \<Rightarrow>
                         (Write_body ack_body
                            (WriteHeader StatusOK
                               (Header_Set ''Content-Type'' ''application/json'' new_response)),
                          w3)))))"

text \<open>\<^verbatim>\<open>WebhookHandler.ServeHTTP\<close> of the package \<^verbatim>\<open>handlers\<close>: no rate
  limiter, and the header value goes to the processor as it came.\<close>

definition handlers_ServeHTTP ::
  "(string \<Rightarrow> string \<Rightarrow> world \<Rightarrow> error option \<times> world) \<Rightarrow> request \<Rightarrow> world \<Rightarrow> response \<times> world" where
  "handlers_ServeHTTP process r w =
     (if Method r \<noteq> MethodPost then
        (http_Error ''Method not allowed'' StatusMethodNotAllowed new_response, w)
      else
        (case io_ReadAll r w of
           ((bytes, Some err), w2) \<Rightarrow>
             (http_Error ''Failed to read body'' StatusBadRequest new_response,
              Logger_Error ''failed to read request body'' err w2)
         | ((bytes, None), w2) \<Rightarrow>
             (let signature = Header_Get (Header r) ''X-Webhook-Signature'' in
              if signature = [] then
                (http_Error ''Missing X-Webhook-Signature header'' StatusBadRequest new_response,
                 Logger_Info ''missing webhook signature header'' [] w2)
              else
                (case process bytes signature w2 of
                   (Some err, w3) \<Rightarrow>
                     (http_Error ''Failed to process webhook'' StatusUnauthorized new_response,
                      Logger_Error ''failed to process webhook'' err w3)
                 | (None, w3) \<Rightarrow>
                     (Write_body ack_body
                        (WriteHeader StatusOK
                           (Header_Set ''Content-Type'' ''application/json'' new_response)),
                      w3)))))"

text \<open>What both handlers do with the answer of \<^verbatim>\<open>Process\<close>: the last lines of
  either \<^verbatim>\<open>ServeHTTP\<close>, named for the statements below.\<close>

definition respond :: "error option \<times> world \<Rightarrow> response \<times> world" where
  "respond out =
     (case out of
        (Some err, w3) \<Rightarrow>
          (http_Error ''Failed to process webhook'' StatusUnauthorized new_response,
           Logger_Error ''failed to process webhook'' err w3)
      | (None, w3) \<Rightarrow>
          (Write_body ack_body
             (WriteHeader StatusOK (Header_Set ''Content-Type'' ''application/json'' new_response)),
           w3))"

text \<open>
  The handler \<^verbatim>\<open>initializeHandler\<close> of \<^verbatim>\<open>function.go\<close> assembles: the HMAC
  validator over the configured secret, the Firestore repository, the service and the
  rate-limited handler. \<open>now\<close> and \<open>outcome\<close> are the clock and the backend's answer
  at the write, should the request get that far.
\<close>

definition webhookHandler ::
  "(string \<Rightarrow> string \<Rightarrow> byte list) \<Rightarrow> string \<Rightarrow> (string \<Rightarrow> error + WebhookPayload) \<Rightarrow>
   int64 \<Rightarrow> error option \<Rightarrow> request \<Rightarrow> world \<Rightarrow> response \<times> world" where
  "webhookHandler mac secret unmarshal now outcome r w =
     ServeHTTP
       (Process (HMACValidator_Validate mac secret) unmarshal (FirestoreRepository_Write now outcome))
       r w"

section \<open>Properties of states and the reference scenario\<close>

text \<open>
  The relation between a document of the collection \<^verbatim>\<open>analytics\<close> and the
  key it is stored under: its \<^verbatim>\<open>requestId\<close> field is the key.
\<close>

definition key_is_requestId :: "world \<Rightarrow> bool" where
  "key_is_requestId w =
     (\<forall>k d. docs w (''analytics'', k) = Some d \<longrightarrow> d ''requestId'' = Some (VString k))"

text \<open>
  The state right after \<^verbatim>\<open>initializeHandler\<close>: \<^verbatim>\<open>NewRateLimiter(100, 20)\<close>
  starts with a full bucket of 20 tokens; nothing is stored and nothing has happened.
\<close>

definition initial_world :: world where
  "initial_world = \<lparr>tokens = 20, docs = Map.empty, live = [], events = []\<rparr>"

text \<open>
  The request of the specification's scenario A, signed with the secret
  \<^verbatim>\<open>test-secret-123\<close> of the README: its body, the payload
  \<^verbatim>\<open>json.Unmarshal\<close> decodes it to, and its HMAC-SHA256 digest under that secret
  (hex \<^verbatim>\<open>baccd9330e8b6d091bc5087ab075b5242dfaa2b09f63bd09eab1f892c602a38c\<close>).
  \<open>scenario_unmarshal\<close> and \<open>scenario_mac\<close> are the decoder and the keyed hash
  at this body and secret; at any other argument they take one fixed value of the
  right shape (a syntax error, 32 zero bytes), which no statement below relies on
  being the true one.
\<close>

definition scenario_body :: string where
  \<open>scenario_body = ''{"eventType":"x","timestamp":1700000000,"data":{"requestId":"req_1","query":"q","timestamp":1700000000}}''\<close>

definition scenario_record :: AnalyticsRecord where
  "scenario_record =
     \<lparr>RequestID = ''req_1'', Query = ''q'', MatchType = [], MatchScore = 0, Reasoning = [],
      VectorMatches = 0, SessionID = [], Week = [], Timestamp = 1700000000\<rparr>"

definition scenario_payload :: WebhookPayload where
  "scenario_payload =
     \<lparr>EventType = ''x'', EnvelopeTimestamp = 1700000000, Data = scenario_record\<rparr>"

definition scenario_unmarshal :: "string \<Rightarrow> error + WebhookPayload" where
  "scenario_unmarshal bytes =
     (if bytes = scenario_body then Inr scenario_payload
      else Inl (Err ''invalid character''))"

definition scenario_secret :: string where
  "scenario_secret = ''test-secret-123''"

definition scenario_digest :: "byte list" where
  "scenario_digest =
     [0xba, 0xcc, 0xd9, 0x33, 0x0e, 0x8b, 0x6d, 0x09, 0x1b, 0xc5, 0x08, 0x7a, 0xb0, 0x75, 0xb5, 0x24,
      0x2d, 0xfa, 0xa2, 0xb0, 0x9f, 0x63, 0xbd, 0x09, 0xea, 0xb1, 0xf8, 0x92, 0xc6, 0x02, 0xa3, 0x8c]"

definition scenario_mac :: "string \<Rightarrow> string \<Rightarrow> byte list" where
  "scenario_mac secret payload =
     (if secret = scenario_secret \<and> payload = scenario_body then scenario_digest
      else replicate 32 0)"

definition scenario_signature :: string where
  "scenario_signature = ''baccd9330e8b6d091bc5087ab075b5242dfaa2b09f63bd09eab1f892c602a38c''"

definition scenario_request :: "string \<Rightarrow> string \<Rightarrow> request" where
  "scenario_request method signature_header =
     \<lparr>Method = method, Header = [''X-Webhook-Signature'' \<mapsto> [signature_header]],
      Body = scenario_body, BodyErr = None, RemoteAddr = ''203.0.113.7:40000''\<rparr>"

section \<open>Auxiliary facts\<close>

subsection \<open>Hex encoding\<close>

lemma nibble_hi: "unat (drop_bit 4 (v::8 word)) < 16"
proof -
  have "unat v < 2 ^ LENGTH(8)" by (rule unsigned_less)
  then have "unat v div 16 < 16" by simp
  then show ?thesis by (simp add: drop_bit_eq_div unat_div)
qed

lemma nibble_lo: "unat ((v::8 word) AND 0x0f) < 16"
proof -
  have "unat (v AND 15) \<le> unat (15 :: 8 word)"
    by (rule word_and_le1 [THEN word_le_nat_alt [THEN iffD1]])
  then show ?thesis by simp
qed

lemma hex_length: "length (hex_EncodeToString src) = 2 * length src"
  by (induction src) (simp_all add: hex_EncodeToString_def)

lemma hextable_nth: "n < 16 \<Longrightarrow> hextable ! n \<in> set hextable"
  by (rule nth_mem) (simp add: hextable_def)

lemma hex_chars: "set (hex_EncodeToString src) \<subseteq> set hextable"
  by (induction src) (simp_all add: hex_EncodeToString_def hextable_nth nibble_hi nibble_lo)

lemma Validate_signed [simp]:
  "HMACValidator_Validate mac secret payload (hex_EncodeToString (mac secret payload)) = None"
  by (simp add: HMACValidator_Validate_def)

lemma scenario_digest_hex:
  "hex_EncodeToString (scenario_mac scenario_secret scenario_body) = scenario_signature"
  by (simp add: hex_EncodeToString_def hextable_def scenario_mac_def scenario_digest_def
      scenario_signature_def)

lemma scenario_digest_length: "length (scenario_mac scenario_secret scenario_body) = 32"
  by (simp add: scenario_mac_def scenario_digest_def)

subsection \<open>Effects and storage\<close>

lemma writes_of_emit_log [simp]: "writes_of (emit (Logged l) w) = writes_of w"
  by (simp add: writes_of_def emit_def)

lemma writes_of_emit_DocSet [simp]:
  "writes_of (emit (DocSet c k d) w) = writes_of w @ [DocSet c k d]"
  by (simp add: writes_of_def emit_def)

lemma writes_of_docs_update [simp]: "writes_of (w\<lparr>docs := m\<rparr>) = writes_of w"
  by (simp add: writes_of_def)

lemma docs_emit [simp]: "docs (emit e w) = docs w"
  by (simp add: emit_def)

lemma live_emit [simp]: "live (emit e w) = live w"
  by (simp add: emit_def)

lemma tokens_emit [simp]: "tokens (emit e w) = tokens w"
  by (simp add: emit_def)

lemma record_data_dom:
  "dom (record_data rec t) =
     {''requestId'', ''query'', ''matchType'', ''matchScore'', ''reasoning'',
      ''vectorMatches'', ''sessionId'', ''week'', ''timestamp'', ''receivedAt''}"
  by (auto simp: record_data_def)

lemma record_data_fields:
  "record_data rec t ''requestId'' = Some (VString (RequestID rec))"
  "record_data rec t ''query'' = Some (VString (Query rec))"
  "record_data rec t ''matchType'' = Some (VString (MatchType rec))"
  "record_data rec t ''matchScore'' = Some (VInt (MatchScore rec))"
  "record_data rec t ''reasoning'' = Some (VString (Reasoning rec))"
  "record_data rec t ''vectorMatches'' = Some (VInt (VectorMatches rec))"
  "record_data rec t ''sessionId'' = Some (VString (SessionID rec))"
  "record_data rec t ''week'' = Some (VString (Week rec))"
  "record_data rec t ''timestamp'' = Some (VInt64 (Timestamp rec))"
  "record_data rec t ''receivedAt'' = Some (VInt64 t)"
  by (simp_all add: record_data_def)

lemma Write_world:
  "snd (FirestoreRepository_Write now outcome rec w) =
     (case outcome of
        Some err \<Rightarrow> emit (DocSet ''analytics'' (RequestID rec) (record_data rec now)) w
      | None \<Rightarrow> (emit (DocSet ''analytics'' (RequestID rec) (record_data rec now)) w)
                 \<lparr>docs := (docs w)((''analytics'', RequestID rec) \<mapsto> record_data rec now)\<rparr>)"
  by (simp add: FirestoreRepository_Write_def docRef_Set_def Let_def split: option.splits)

lemma Write_result:
  "fst (FirestoreRepository_Write now outcome rec w) =
     map_option (Errorf_wrap ''failed to write analytics to Firestore'') outcome"
  by (simp add: FirestoreRepository_Write_def docRef_Set_def Let_def split: option.splits)

lemma Write_preserves_key:
  "key_is_requestId w \<Longrightarrow> key_is_requestId (snd (FirestoreRepository_Write now outcome rec w))"
  by (cases outcome) (simp_all add: Write_world key_is_requestId_def record_data_fields)

lemma key_is_requestId_initial: "key_is_requestId initial_world"
  by (simp add: key_is_requestId_def initial_world_def)

lemma writes_of_initial: "writes_of initial_world = []"
  by (simp add: writes_of_def initial_world_def)

section \<open>The signature validator\<close>

text \<open>
  Claim C2. For every payload, secret and digest function (with the 32-byte digests
  of SHA-256), \<^verbatim>\<open>HMACValidator.Validate\<close> returns \<open>nil\<close> exactly when the
  signature is the hex encoding of the digest of the payload under the secret, and
  the error \<^verbatim>\<open>invalid signature\<close> for every other signature, the empty one
  included. That encoding has 64 characters, all of them among
  \<^verbatim>\<open>0123456789abcdef\<close>. The validator is a function of its arguments alone:
  it has no state to change.
\<close>

theorem Validate_accepts_exactly_hex_digest:
  assumes "length (mac secret payload) = 32"
  shows "(HMACValidator_Validate mac secret payload s = None) = (s = hex_EncodeToString (mac secret payload))
       \<and> (HMACValidator_Validate mac secret payload s = Some (Err ''invalid signature''))
           = (s \<noteq> hex_EncodeToString (mac secret payload))
       \<and> HMACValidator_Validate mac secret payload [] = Some (Err ''invalid signature'')
       \<and> length (hex_EncodeToString (mac secret payload)) = 64
       \<and> set (hex_EncodeToString (mac secret payload)) \<subseteq> set ''0123456789abcdef''"
proof -
  have len: "length (hex_EncodeToString (mac secret payload)) = 64"
    using assms by (simp add: hex_length)
  then have ne: "hex_EncodeToString (mac secret payload) \<noteq> []" by auto
  have cs: "set (hex_EncodeToString (mac secret payload)) \<subseteq> set ''0123456789abcdef''"
    using hex_chars [of "mac secret payload"] by (simp only: hextable_def)
  show ?thesis using len ne cs
    by (auto simp: HMACValidator_Validate_def Let_def)
qed

theorem Validate_accepts_exactly_hex_digest_witness:
  "length (scenario_mac scenario_secret scenario_body) = 32
   \<and> HMACValidator_Validate scenario_mac scenario_secret scenario_body scenario_signature = None
   \<and> HMACValidator_Validate scenario_mac scenario_secret scenario_body
        (''sha256='' @ scenario_signature) = Some (Err ''invalid signature'')
   \<and> HMACValidator_Validate scenario_mac scenario_secret scenario_body [] =
        Some (Err ''invalid signature'')"
proof -
  note len = scenario_digest_length
  show ?thesis
    using len
      Validate_accepts_exactly_hex_digest
        [where mac = scenario_mac and secret = scenario_secret and payload = scenario_body
           and s = scenario_signature]
      Validate_accepts_exactly_hex_digest
        [where mac = scenario_mac and secret = scenario_secret and payload = scenario_body
           and s = "''sha256='' @ scenario_signature"]
    by (simp add: scenario_digest_hex)
qed

section \<open>Record validation\<close>

text \<open>
  Claim C8. \<^verbatim>\<open>validateAnalyticsRecord\<close> checks \<^verbatim>\<open>requestId\<close>, then
  \<^verbatim>\<open>query\<close>, then \<^verbatim>\<open>timestamp\<close>, and reports the first check that fails,
  whatever the later fields hold; the error names the field. A record that passes
  the three checks yields no error.
\<close>

theorem validateAnalyticsRecord_first_failure:
  "(RequestID rec = [] \<longrightarrow> validateAnalyticsRecord rec = Some (Err ''requestId is required''))
 \<and> (RequestID rec \<noteq> [] \<and> Query rec = [] \<longrightarrow>
        validateAnalyticsRecord rec = Some (Err ''query is required''))
 \<and> (RequestID rec \<noteq> [] \<and> Query rec \<noteq> [] \<and> Timestamp rec = 0 \<longrightarrow>
        validateAnalyticsRecord rec = Some (Err ''timestamp is required''))
 \<and> (RequestID rec \<noteq> [] \<and> Query rec \<noteq> [] \<and> Timestamp rec \<noteq> 0 \<longrightarrow>
        validateAnalyticsRecord rec = None)"
  by (simp add: validateAnalyticsRecord_def)

theorem validateAnalyticsRecord_first_failure_witness:
  "validateAnalyticsRecord (scenario_record\<lparr>RequestID := [], Query := [], Timestamp := 0\<rparr>)
     = Some (Err ''requestId is required'')
   \<and> validateAnalyticsRecord (scenario_record\<lparr>Query := [], Timestamp := 0\<rparr>)
     = Some (Err ''query is required'')
   \<and> validateAnalyticsRecord (scenario_record\<lparr>Timestamp := 0\<rparr>)
     = Some (Err ''timestamp is required'')
   \<and> validateAnalyticsRecord scenario_record = None"
  using validateAnalyticsRecord_first_failure
          [of "scenario_record\<lparr>RequestID := [], Query := [], Timestamp := 0\<rparr>"]
        validateAnalyticsRecord_first_failure
          [of "scenario_record\<lparr>Query := [], Timestamp := 0\<rparr>"]
        validateAnalyticsRecord_first_failure [of "scenario_record\<lparr>Timestamp := 0\<rparr>"]
        validateAnalyticsRecord_first_failure [of scenario_record]
  by (simp add: scenario_record_def)

section \<open>The webhook service\<close>

text \<open>
  Claim C3. A correctly signed payload that decodes to a record with an empty
  \<^verbatim>\<open>requestId\<close>, an empty \<^verbatim>\<open>query\<close> or a zero \<^verbatim>\<open>timestamp\<close> makes
  \<^verbatim>\<open>Process\<close> return an error, and the writer is not invoked: whatever writer
  the service holds, the world after the call is the world before it with one line
  logged, so no storage request was issued and no document changed.
\<close>

theorem Process_invalid_record_never_writes:
  assumes "unmarshal payload = Inr p"
      and "RequestID (Data p) = [] \<or> Query (Data p) = [] \<or> Timestamp (Data p) = 0"
  shows "\<exists>err. validateAnalyticsRecord (Data p) = Some err
          \<and> Process (HMACValidator_Validate mac secret) unmarshal write payload
               (hex_EncodeToString (mac secret payload)) w
             = (Some (Errorf_wrap ''invalid analytics record'' err),
                Logger_Error ''analytics record validation failed'' err w)
          \<and> writes_of (Logger_Error ''analytics record validation failed'' err w) = writes_of w
          \<and> docs (Logger_Error ''analytics record validation failed'' err w) = docs w
          \<and> live (Logger_Error ''analytics record validation failed'' err w) = live w"
proof -
  from assms(2) have "validateAnalyticsRecord (Data p) \<noteq> None"
    by (auto simp: validateAnalyticsRecord_def)
  then obtain err where v: "validateAnalyticsRecord (Data p) = Some err"
    by blast
  show ?thesis
    using v assms(1) by (simp add: Process_def Logger_Error_def)
qed

theorem Process_invalid_record_never_writes_witness:
  "Process (HMACValidator_Validate scenario_mac scenario_secret)
     (\<lambda>bytes. Inr (scenario_payload\<lparr>Data := scenario_record\<lparr>RequestID := []\<rparr>\<rparr>))
     (FirestoreRepository_Write 1700000001 None) scenario_body
     (hex_EncodeToString (scenario_mac scenario_secret scenario_body)) initial_world
   = (Some (Err ''invalid analytics record: requestId is required''),
      Logger_Error ''analytics record validation failed'' (Err ''requestId is required'')
        initial_world)
   \<and> writes_of (Logger_Error ''analytics record validation failed''
                  (Err ''requestId is required'') initial_world) = []"
  using Process_invalid_record_never_writes
          [of "\<lambda>bytes. Inr (scenario_payload\<lparr>Data := scenario_record\<lparr>RequestID := []\<rparr>\<rparr>)"
              scenario_body "scenario_payload\<lparr>Data := scenario_record\<lparr>RequestID := []\<rparr>\<rparr>"
              scenario_mac scenario_secret "FirestoreRepository_Write 1700000001 None"
              initial_world]
  by (auto simp: validateAnalyticsRecord_def scenario_payload_def writes_of_initial)

text \<open>
  Claim C4. A correctly signed payload that decodes to a record with a non-empty
  \<^verbatim>\<open>requestId\<close>, a non-empty \<^verbatim>\<open>query\<close> and a non-zero \<^verbatim>\<open>timestamp\<close>
  makes \<^verbatim>\<open>Process\<close>, over the Firestore repository, issue exactly one storage
  request: a \<^verbatim>\<open>Set\<close> of the document \<^verbatim>\<open>analytics/<requestId>\<close>. The data
  of the request has the ten fields of the source and no other; nine hold the
  record's values and \<^verbatim>\<open>receivedAt\<close> holds the clock reading taken at the
  write, which is not zero when the clock does not read the epoch. The call
  succeeds exactly when the backend accepts the request, and the document is then
  stored.
\<close>

theorem Process_valid_writes_once:
  assumes "unmarshal payload = Inr p"
      and "RequestID (Data p) \<noteq> []" and "Query (Data p) \<noteq> []" and "Timestamp (Data p) \<noteq> 0"
      and "now \<noteq> 0"
  shows "let rec = Data p; d = record_data rec now;
             out = Process (HMACValidator_Validate mac secret) unmarshal
                     (FirestoreRepository_Write now outcome) payload
                     (hex_EncodeToString (mac secret payload)) w
         in writes_of (snd out) = writes_of w @ [DocSet ''analytics'' (RequestID rec) d]
          \<and> (fst out = None) = (outcome = None)
          \<and> (outcome = None \<longrightarrow>
                docs (snd out) = (docs w)((''analytics'', RequestID rec) \<mapsto> d))
          \<and> d ''requestId'' = Some (VString (RequestID rec))
          \<and> d ''query'' = Some (VString (Query rec))
          \<and> d ''matchType'' = Some (VString (MatchType rec))
          \<and> d ''matchScore'' = Some (VInt (MatchScore rec))
          \<and> d ''reasoning'' = Some (VString (Reasoning rec))
          \<and> d ''vectorMatches'' = Some (VInt (VectorMatches rec))
          \<and> d ''sessionId'' = Some (VString (SessionID rec))
          \<and> d ''week'' = Some (VString (Week rec))
          \<and> d ''timestamp'' = Some (VInt64 (Timestamp rec))
          \<and> d ''receivedAt'' = Some (VInt64 now) \<and> d ''receivedAt'' \<noteq> Some (VInt64 0)
          \<and> dom d = {''requestId'', ''query'', ''matchType'', ''matchScore'', ''reasoning'',
                      ''vectorMatches'', ''sessionId'', ''week'', ''timestamp'', ''receivedAt''}"
proof -
  have v: "validateAnalyticsRecord (Data p) = None"
    using assms(2-4) by (simp add: validateAnalyticsRecord_def)
  define out where "out = Process (HMACValidator_Validate mac secret) unmarshal
                     (FirestoreRepository_Write now outcome) payload
                     (hex_EncodeToString (mac secret payload)) w"
  have out: "out = (case FirestoreRepository_Write now outcome (Data p) w of
                (Some err, w') \<Rightarrow>
                   (Some (Errorf_wrap ''failed to store analytics'' err),
                    Logger_Error ''failed to write analytics'' err w')
              | (None, w') \<Rightarrow>
                   (None, Logger_Info ''webhook processed successfully''
                            [Str ''requestId'', Str (RequestID (Data p))] w'))"
    using v assms(1) by (simp add: out_def Process_def)
  have w: "writes_of (snd out) = writes_of w @ [DocSet ''analytics'' (RequestID (Data p)) (record_data (Data p) now)]"
    by (cases outcome)
       (simp_all add: out FirestoreRepository_Write_def docRef_Set_def Let_def
          Logger_Error_def Logger_Info_def)
  have r: "(fst out = None) = (outcome = None)"
    by (cases outcome)
       (simp_all add: out FirestoreRepository_Write_def docRef_Set_def Let_def)
  have d: "outcome = None \<Longrightarrow>
        docs (snd out) = (docs w)((''analytics'', RequestID (Data p)) \<mapsto> record_data (Data p) now)"
    by (simp add: out FirestoreRepository_Write_def docRef_Set_def Let_def Logger_Info_def)
  show ?thesis
    unfolding Let_def out_def [symmetric]
    using w r d assms(5) by (simp add: record_data_fields record_data_dom)
qed

theorem Process_valid_writes_once_witness:
  "(let out = Process (HMACValidator_Validate scenario_mac scenario_secret) scenario_unmarshal
                (FirestoreRepository_Write 1700000001 None) scenario_body
                (hex_EncodeToString (scenario_mac scenario_secret scenario_body)) initial_world
    in writes_of (snd out) =
         [DocSet ''analytics'' ''req_1'' (record_data scenario_record 1700000001)]
     \<and> fst out = None
     \<and> docs (snd out) (''analytics'', ''req_1'') = Some (record_data scenario_record 1700000001))
   \<and> record_data scenario_record 1700000001 ''query'' = Some (VString ''q'')
   \<and> record_data scenario_record 1700000001 ''receivedAt'' = Some (VInt64 1700000001)"
  using Process_valid_writes_once
          [of scenario_unmarshal scenario_body scenario_payload 1700000001 scenario_mac
              scenario_secret None initial_world]
  by (simp add: Let_def scenario_unmarshal_def scenario_payload_def scenario_record_def
        writes_of_initial)

section \<open>The storage writers\<close>

text \<open>
  Claim C10. Every document the Firestore repository stores in the collection
  \<^verbatim>\<open>analytics\<close> carries, in its \<^verbatim>\<open>requestId\<close> field, the key it is stored
  under: the relation holds after any sequence of \<^verbatim>\<open>Write\<close> calls, whatever the
  records, the clock readings and the backend's answers, when it holds before.
\<close>

theorem Write_keeps_key_is_requestId:
  "key_is_requestId w \<Longrightarrow>
   key_is_requestId
     (fold (\<lambda>(now, outcome, rec) w'. snd (FirestoreRepository_Write now outcome rec w')) ws w)"
proof (induction ws arbitrary: w)
  case Nil
  then show ?case by simp
next
  case (Cons x ws)
  obtain now outcome rec where x: "x = (now, outcome, rec)" by (cases x)
  from Cons.prems have "key_is_requestId (snd (FirestoreRepository_Write now outcome rec w))"
    by (rule Write_preserves_key)
  then show ?case using Cons.IH by (simp add: x)
qed

theorem Write_keeps_key_is_requestId_witness:
  "key_is_requestId initial_world
   \<and> key_is_requestId
       (fold (\<lambda>(now, outcome, rec) w'. snd (FirestoreRepository_Write now outcome rec w'))
          [(1700000001, None, scenario_record),
           (1700000002, Some (Err ''unavailable''), scenario_record\<lparr>RequestID := ''req_2''\<rparr>),
           (1700000003, None, scenario_record\<lparr>RequestID := ''req_3''\<rparr>)]
          initial_world)"
  using key_is_requestId_initial
        Write_keeps_key_is_requestId [OF key_is_requestId_initial,
          of "[(1700000001, None, scenario_record),
               (1700000002, Some (Err ''unavailable''), scenario_record\<lparr>RequestID := ''req_2''\<rparr>),
               (1700000003, None, scenario_record\<lparr>RequestID := ''req_3''\<rparr>)]"]
  by simp

text \<open>
  Claim C1, as the code has it. For the Firestore repository: after a write of a
  record and a second, accepted write of a record with the same \<^verbatim>\<open>requestId\<close>,
  the collection differs from the one before the two writes in the document under
  that key alone; that document is exactly the data of the second write (its ten
  fields, nothing kept from the first), and, the keys being the \<^verbatim>\<open>requestId\<close>s,
  it is the only document with that \<^verbatim>\<open>requestId\<close>. The Realtime Database
  repository pushes a new child at every write instead and is outside this
  statement.
\<close>

theorem firestore_last_write_wins:
  assumes "RequestID r2 = RequestID r1" and "key_is_requestId w"
  shows "let w1 = snd (FirestoreRepository_Write t1 outcome1 r1 w);
             out = FirestoreRepository_Write t2 None r2 w1
         in fst out = None
          \<and> docs (snd out) = (docs w)((''analytics'', RequestID r1) \<mapsto> record_data r2 t2)
          \<and> docs (snd out) (''analytics'', RequestID r1) = Some (record_data r2 t2)
          \<and> {k. \<exists>d. docs (snd out) (''analytics'', k) = Some d
                    \<and> d ''requestId'' = Some (VString (RequestID r1))} = {RequestID r1}
          \<and> dom (record_data r2 t2) =
               {''requestId'', ''query'', ''matchType'', ''matchScore'', ''reasoning'',
                ''vectorMatches'', ''sessionId'', ''week'', ''timestamp'', ''receivedAt''}"
proof -
  define w2 where "w2 = snd (FirestoreRepository_Write t2 None r2
                               (snd (FirestoreRepository_Write t1 outcome1 r1 w)))"
  have d: "docs w2 = (docs w)((''analytics'', RequestID r1) \<mapsto> record_data r2 t2)"
    using assms(1) by (cases outcome1) (simp_all add: w2_def Write_world)
  have "key_is_requestId w2"
    unfolding w2_def by (intro Write_preserves_key assms(2))
  then have one: "{k. \<exists>d. docs w2 (''analytics'', k) = Some d
                    \<and> d ''requestId'' = Some (VString (RequestID r1))} = {RequestID r1}"
  proof (intro set_eqI iffI)
    fix k
    assume "k \<in> {k. \<exists>d. docs w2 (''analytics'', k) = Some d
                    \<and> d ''requestId'' = Some (VString (RequestID r1))}"
    then obtain d' where "docs w2 (''analytics'', k) = Some d'"
        and "d' ''requestId'' = Some (VString (RequestID r1))" by blast
    with \<open>key_is_requestId w2\<close> have "Some (VString k) = Some (VString (RequestID r1))"
      unfolding key_is_requestId_def by metis
    then show "k \<in> {RequestID r1}" by simp
  next
    fix k
    assume "k \<in> {RequestID r1}"
    then show "k \<in> {k. \<exists>d. docs w2 (''analytics'', k) = Some d
                    \<and> d ''requestId'' = Some (VString (RequestID r1))}"
      using assms(1) by (simp add: d record_data_fields)
  qed
  show ?thesis
    unfolding Let_def w2_def [symmetric]
    using d one by (simp add: Write_result record_data_dom)
qed

theorem firestore_last_write_wins_witness:
  "RequestID (scenario_record\<lparr>Query := ''q2''\<rparr>) = RequestID scenario_record
   \<and> key_is_requestId initial_world
   \<and> (let w1 = snd (FirestoreRepository_Write 1700000001 None scenario_record initial_world);
          out = FirestoreRepository_Write 1700000002 None (scenario_record\<lparr>Query := ''q2''\<rparr>) w1
      in fst out = None
       \<and> docs (snd out) =
           (docs initial_world)((''analytics'', RequestID scenario_record) \<mapsto>
              record_data (scenario_record\<lparr>Query := ''q2''\<rparr>) 1700000002)
       \<and> docs (snd out) (''analytics'', RequestID scenario_record) =
           Some (record_data (scenario_record\<lparr>Query := ''q2''\<rparr>) 1700000002)
       \<and> {k. \<exists>d. docs (snd out) (''analytics'', k) = Some d
                 \<and> d ''requestId'' = Some (VString (RequestID scenario_record))}
           = {RequestID scenario_record}
       \<and> dom (record_data (scenario_record\<lparr>Query := ''q2''\<rparr>) 1700000002) =
            {''requestId'', ''query'', ''matchType'', ''matchScore'', ''reasoning'',
             ''vectorMatches'', ''sessionId'', ''week'', ''timestamp'', ''receivedAt''})"
proof -
  have same: "RequestID (scenario_record\<lparr>Query := ''q2''\<rparr>) = RequestID scenario_record"
    by simp
  note inv = key_is_requestId_initial
  from same inv
    firestore_last_write_wins [OF same inv, of 1700000001 None 1700000002]
  show ?thesis by (intro conjI)
qed

text \<open>
  The claim C1 as stated covers \<^verbatim>\<open>FirebaseRepository.Write\<close> too, and fails
  there: two writes of records with the \<^verbatim>\<open>requestId\<close> \<^verbatim>\<open>req_1\<close> leave two
  children under \<^verbatim>\<open>analytics/live\<close>, the first with the values of the first
  write.
\<close>

theorem firebase_write_twice_counterexample:
  "(let w2 = snd (FirebaseRepository_Write 1700000002000 None (scenario_record\<lparr>Query := ''q2''\<rparr>)
                   (snd (FirebaseRepository_Write 1700000001000 None scenario_record
                           initial_world)))
    in live w2 = [record_data scenario_record 1700000001000,
                  record_data (scenario_record\<lparr>Query := ''q2''\<rparr>) 1700000002000]
     \<and> length (filter (\<lambda>d. d ''requestId'' = Some (VString ''req_1'')) (live w2)) = 2)"
  by (simp add: Let_def FirebaseRepository_Write_def ref_Push_def emit_def initial_world_def
        record_data_fields scenario_record_def)

section \<open>The HTTP handlers\<close>

subsection \<open>Auxiliary facts\<close>

lemma TrimPrefix_append [simp]: "strings_TrimPrefix (prefix @ s) prefix = s"
  by (simp add: strings_TrimPrefix_def strings_HasPrefix_def)

lemma TrimPrefix_sha256 [simp]:
  "strings_TrimPrefix (CHR ''s'' # CHR ''h'' # CHR ''a'' # CHR ''2'' # CHR ''5'' # CHR ''6'' # CHR ''='' # s)
     ''sha256='' = s"
  using TrimPrefix_append [of "''sha256=''" s] by simp

lemma status_http_Error [simp]: "status (http_Error msg code resp) = code"
  by (simp add: http_Error_def Write_body_def WriteHeader_def Header_Set_def)

lemma RateLimiter_Allow_empty:
  "tokens w = 0 \<Longrightarrow> RateLimiter_Allow w = (False, emit (RateChecked False) w)"
  by (simp add: RateLimiter_Allow_def)

lemma RateLimiter_Allow_token:
  "0 < tokens w \<Longrightarrow>
   RateLimiter_Allow w = (True, emit (RateChecked True) (w\<lparr>tokens := tokens w - 1\<rparr>))"
  by (simp add: RateLimiter_Allow_def)

lemma ServeHTTP_reaches_processor:
  assumes "0 < tokens w" and "Method r = MethodPost" and "BodyErr r = None"
      and "Header_Get (Header r) ''X-Webhook-Signature'' \<noteq> []"
  shows "ServeHTTP process r w =
           respond (process (Body r)
             (strings_TrimPrefix (Header_Get (Header r) ''X-Webhook-Signature'') ''sha256='')
             (emit BodyRead (emit (RateChecked True) (w\<lparr>tokens := tokens w - 1\<rparr>))))"
  using assms
  by (simp add: ServeHTTP_def RateLimiter_Allow_token io_ReadAll_def Let_def respond_def
      split: prod.splits option.splits)

lemma handlers_ServeHTTP_reaches_processor:
  assumes "Method r = MethodPost" and "BodyErr r = None"
      and "Header_Get (Header r) ''X-Webhook-Signature'' \<noteq> []"
  shows "handlers_ServeHTTP process r w =
           respond (process (Body r) (Header_Get (Header r) ''X-Webhook-Signature'')
             (emit BodyRead w))"
  using assms
  by (simp add: handlers_ServeHTTP_def io_ReadAll_def Let_def respond_def
      split: prod.splits option.splits)

lemma events_emit [simp]: "events (emit e w) = events w @ [e]"
  by (simp add: emit_def)

lemma Process_events:
  "\<exists>es. events (snd (Process validate unmarshal (FirestoreRepository_Write now outcome)
                        payload signature w)) = events w @ es
        \<and> BodyRead \<notin> set es"
  by (simp add: Process_def Logger_Error_def Logger_Info_def FirestoreRepository_Write_def
        docRef_Set_def Let_def split: option.splits sum.splits prod.splits)

lemma Process_result:
  "fst (Process validate unmarshal (FirestoreRepository_Write now outcome) payload signature w) =
     (case validate payload signature of
        Some e \<Rightarrow> Some (Errorf_wrap ''webhook validation failed'' e)
      | None \<Rightarrow>
         (case unmarshal payload of
            Inl e \<Rightarrow> Some (Errorf_wrap ''failed to parse webhook'' e)
          | Inr p \<Rightarrow>
             (case validateAnalyticsRecord (Data p) of
                Some e \<Rightarrow> Some (Errorf_wrap ''invalid analytics record'' e)
              | None \<Rightarrow>
                 map_option
                   (\<lambda>e. Errorf_wrap ''failed to store analytics''
                          (Errorf_wrap ''failed to write analytics to Firestore'' e))
                   outcome)))"
  by (simp add: Process_def FirestoreRepository_Write_def docRef_Set_def Let_def
      split: option.splits sum.splits)

lemma scenario_request_simps [simp]:
  "Method (scenario_request m h) = m"
  "BodyErr (scenario_request m h) = None"
  "Body (scenario_request m h) = scenario_body"
  "Header_Get (Header (scenario_request m h)) ''X-Webhook-Signature'' = h"
  by (simp_all add: scenario_request_def Header_Get_def)

lemma tokens_initial [simp]: "tokens initial_world = 20"
  by (simp add: initial_world_def)

lemma scenario_record_valid [simp]: "validateAnalyticsRecord scenario_record = None"
  by (simp add: validateAnalyticsRecord_def scenario_record_def)

lemma scenario_unmarshal_body [simp]: "scenario_unmarshal scenario_body = Inr scenario_payload"
  by (simp add: scenario_unmarshal_def)

lemma Data_scenario_payload [simp]: "Data scenario_payload = scenario_record"
  by (simp add: scenario_payload_def)

lemma scenario_Validate_ok [simp]:
  "HMACValidator_Validate scenario_mac scenario_secret scenario_body scenario_signature = None"
  using Validate_signed [of scenario_mac scenario_secret scenario_body]
  by (simp only: scenario_digest_hex)

lemma scenario_Validate_prefixed [simp]:
  "HMACValidator_Validate scenario_mac scenario_secret scenario_body
     (CHR ''s'' # CHR ''h'' # CHR ''a'' # CHR ''2'' # CHR ''5'' # CHR ''6'' # CHR ''='' #
      scenario_signature) = Some (Err ''invalid signature'')"
  by (simp add: HMACValidator_Validate_def scenario_digest_hex scenario_signature_def)

lemma scenario_Validate_00 [simp]:
  "HMACValidator_Validate scenario_mac scenario_secret scenario_body ''00''
     = Some (Err ''invalid signature'')"
  by (simp add: HMACValidator_Validate_def scenario_digest_hex scenario_signature_def)

subsection \<open>Status codes\<close>

text \<open>
  Claim C5. For a request that reaches the processor (a POST whose body was read and
  whose signature header is not empty; for the rate-limited handler, one the limiter
  let through), both handlers answer from the result of \<^verbatim>\<open>Process\<close> alone:
  any error gives one and the same response, with status 401, whatever the error is,
  and \<open>nil\<close> gives status 200, the content type \<^verbatim>\<open>application/json\<close> and
  the body \<^verbatim>\<open>{"success":true,"status":"ok"}\<close>. The processor is arbitrary, so
  the four kinds of failure of \<^verbatim>\<open>WebhookService.Process\<close> are covered.
\<close>

theorem processor_errors_collapse_to_401:
  assumes "0 < tokens w" and "Method r = MethodPost" and "BodyErr r = None"
      and "Header_Get (Header r) ''X-Webhook-Signature'' \<noteq> []"
  shows "let sig = Header_Get (Header r) ''X-Webhook-Signature'';
             out = process (Body r) (strings_TrimPrefix sig ''sha256='')
                     (emit BodyRead (emit (RateChecked True) (w\<lparr>tokens := tokens w - 1\<rparr>)));
             resp = fst (ServeHTTP process r w);
             out' = process (Body r) sig (emit BodyRead w);
             resp' = fst (handlers_ServeHTTP process r w)
         in (fst out \<noteq> None \<longrightarrow>
               resp = http_Error ''Failed to process webhook'' StatusUnauthorized new_response
               \<and> status resp = 401)
          \<and> (fst out = None \<longrightarrow>
               status resp = 200 \<and> body resp = ack_body
               \<and> headers resp = [''Content-Type'' \<mapsto> ''application/json''])
          \<and> (fst out' \<noteq> None \<longrightarrow>
               resp' = http_Error ''Failed to process webhook'' StatusUnauthorized new_response
               \<and> status resp' = 401)
          \<and> (fst out' = None \<longrightarrow>
               status resp' = 200 \<and> body resp' = ack_body
               \<and> headers resp' = [''Content-Type'' \<mapsto> ''application/json''])"
  unfolding Let_def ServeHTTP_reaches_processor [OF assms]
    handlers_ServeHTTP_reaches_processor [OF assms(2-4)]
  by (auto simp: respond_def StatusUnauthorized_def StatusOK_def Write_body_def WriteHeader_def
        Header_Set_def new_response_def split: prod.splits option.splits)

theorem processor_errors_collapse_to_401_witness:
  \<open>status (fst (ServeHTTP
      (Process (HMACValidator_Validate scenario_mac scenario_secret) scenario_unmarshal
         (FirestoreRepository_Write 1700000001 None))
      (scenario_request ''POST'' (''sha256='' @ ''00'')) initial_world)) = 401
   \<and> status (fst (ServeHTTP
      (Process (HMACValidator_Validate scenario_mac scenario_secret)
         (\<lambda>bytes. Inl (Err ''invalid character''))
         (FirestoreRepository_Write 1700000001 None))
      (scenario_request ''POST'' (''sha256='' @ scenario_signature)) initial_world)) = 401
   \<and> status (fst (ServeHTTP
      (Process (HMACValidator_Validate scenario_mac scenario_secret)
         (\<lambda>bytes. Inr (scenario_payload\<lparr>Data := scenario_record\<lparr>RequestID := []\<rparr>\<rparr>))
         (FirestoreRepository_Write 1700000001 None))
      (scenario_request ''POST'' (''sha256='' @ scenario_signature)) initial_world)) = 401
   \<and> status (fst (ServeHTTP
      (Process (HMACValidator_Validate scenario_mac scenario_secret) scenario_unmarshal
         (FirestoreRepository_Write 1700000001 (Some (Err ''unavailable''))))
      (scenario_request ''POST'' (''sha256='' @ scenario_signature)) initial_world)) = 401
   \<and> status (fst (ServeHTTP
      (Process (HMACValidator_Validate scenario_mac scenario_secret) scenario_unmarshal
         (FirestoreRepository_Write 1700000001 None))
      (scenario_request ''POST'' (''sha256='' @ scenario_signature)) initial_world)) = 200
   \<and> body (fst (ServeHTTP
      (Process (HMACValidator_Validate scenario_mac scenario_secret) scenario_unmarshal
         (FirestoreRepository_Write 1700000001 None))
      (scenario_request ''POST'' (''sha256='' @ scenario_signature)) initial_world))
       = ''{"success":true,"status":"ok"}''\<close>
  (is "?auth \<and> ?parse \<and> ?invalid \<and> ?storage \<and> ?good \<and> ?ack")
proof -
  have t: "0 < tokens initial_world" by simp
  have m: "Method (scenario_request ''POST'' h) = MethodPost" for h
    by (simp add: MethodPost_def)
  have b: "BodyErr (scenario_request ''POST'' h) = None" for h by simp
  have s: "Header_Get (Header (scenario_request ''POST'' (''sha256='' @ x)))
             ''X-Webhook-Signature'' \<noteq> []" for x by simp
  let ?V = "HMACValidator_Validate scenario_mac scenario_secret"
  let ?ok = "FirestoreRepository_Write 1700000001 None"
  let ?req = "scenario_request ''POST'' (''sha256='' @ scenario_signature)"
  have 1: ?auth
    using processor_errors_collapse_to_401
      [where w = initial_world and r = "scenario_request ''POST'' (''sha256='' @ ''00'')"
         and process = "Process ?V scenario_unmarshal ?ok", OF t m b s, unfolded Let_def]
    by (simp add: Process_result StatusUnauthorized_def)
  have 2: ?parse
    using processor_errors_collapse_to_401
      [where w = initial_world and r = ?req
         and process = "Process ?V (\<lambda>bytes. Inl (Err ''invalid character'')) ?ok",
       OF t m b s, unfolded Let_def]
    by (simp add: Process_result StatusUnauthorized_def)
  have 3: ?invalid
    using processor_errors_collapse_to_401
      [where w = initial_world and r = ?req
         and process = "Process ?V
            (\<lambda>bytes. Inr (scenario_payload\<lparr>Data := scenario_record\<lparr>RequestID := []\<rparr>\<rparr>)) ?ok",
       OF t m b s, unfolded Let_def]
    by (simp add: Process_result validateAnalyticsRecord_def StatusUnauthorized_def)
  have 4: ?storage
    using processor_errors_collapse_to_401
      [where w = initial_world and r = ?req
         and process = "Process ?V scenario_unmarshal
            (FirestoreRepository_Write 1700000001 (Some (Err ''unavailable'')))",
       OF t m b s, unfolded Let_def]
    by (simp add: Process_result StatusUnauthorized_def)
  have 5: "?good \<and> ?ack"
    using processor_errors_collapse_to_401
      [where w = initial_world and r = ?req
         and process = "Process ?V scenario_unmarshal ?ok", OF t m b s, unfolded Let_def]
    by (simp add: Process_result ack_body_def StatusOK_def)
  from 1 2 3 4 5 show ?thesis by blast
qed

subsection \<open>Order of the checks\<close>

text \<open>
  Claim C6, as the code has it. The rate-limited handler consults the limiter
  first: with an exhausted bucket every request, a non-POST one included, is
  answered 429 and only the limiter's answer and one log line are added to the
  history (the body is not read); with a token available a non-POST request is
  answered 405, at the cost of that token, and the body is not read either. For the
  assembled handler the first effect of every request is the consultation of the
  limiter, and the body is read, after it, exactly when a token was available and
  the method is POST.
\<close>

theorem rate_limit_checked_first:
  "(tokens w = 0 \<longrightarrow>
      ServeHTTP process r w =
        (http_Error ''Rate limit exceeded'' StatusTooManyRequests
           (Header_Set ''X-RateLimit-Retry-After'' ''1'' new_response),
         Logger_Info ''rate limit exceeded'' [Str (RemoteAddr r)] (emit (RateChecked False) w))
      \<and> status (fst (ServeHTTP process r w)) = 429)
 \<and> (0 < tokens w \<and> Method r \<noteq> MethodPost \<longrightarrow>
      ServeHTTP process r w =
        (http_Error ''Method not allowed'' StatusMethodNotAllowed new_response,
         emit (RateChecked True) (w\<lparr>tokens := tokens w - 1\<rparr>))
      \<and> status (fst (ServeHTTP process r w)) = 405)
 \<and> (\<exists>rest. events (snd (webhookHandler mac secret unmarshal now outcome r w))
              = events w @ RateChecked (0 < tokens w) # rest
           \<and> (BodyRead \<in> set rest) = (0 < tokens w \<and> Method r = MethodPost))"
proof (intro conjI impI)
  assume "tokens w = 0"
  then show "ServeHTTP process r w =
        (http_Error ''Rate limit exceeded'' StatusTooManyRequests
           (Header_Set ''X-RateLimit-Retry-After'' ''1'' new_response),
         Logger_Info ''rate limit exceeded'' [Str (RemoteAddr r)] (emit (RateChecked False) w))"
    by (simp add: ServeHTTP_def RateLimiter_Allow_empty)
  then show "status (fst (ServeHTTP process r w)) = 429"
    by (simp add: StatusTooManyRequests_def)
next
  assume a: "0 < tokens w \<and> Method r \<noteq> MethodPost"
  then show "ServeHTTP process r w =
        (http_Error ''Method not allowed'' StatusMethodNotAllowed new_response,
         emit (RateChecked True) (w\<lparr>tokens := tokens w - 1\<rparr>))"
    by (simp add: ServeHTTP_def RateLimiter_Allow_token)
  then show "status (fst (ServeHTTP process r w)) = 405"
    by (simp add: StatusMethodNotAllowed_def)
next
  let ?P = "Process (HMACValidator_Validate mac secret) unmarshal
              (FirestoreRepository_Write now outcome)"
  let ?w1 = "emit (RateChecked True) (w\<lparr>tokens := tokens w - 1\<rparr>)"
  let ?w2 = "emit BodyRead ?w1"
  let ?sig = "Header_Get (Header r) ''X-Webhook-Signature''"
  show "\<exists>rest. events (snd (webhookHandler mac secret unmarshal now outcome r w))
              = events w @ RateChecked (0 < tokens w) # rest
           \<and> (BodyRead \<in> set rest) = (0 < tokens w \<and> Method r = MethodPost)"
  proof (cases "0 < tokens w")
    case False
    then show ?thesis
      by (simp add: webhookHandler_def ServeHTTP_def RateLimiter_Allow_empty Logger_Info_def)
  next
    case tok: True
    show ?thesis
    proof (cases "Method r = MethodPost")
      case False
      with tok show ?thesis
        by (simp add: webhookHandler_def ServeHTTP_def RateLimiter_Allow_token)
    next
      case post: True
      show ?thesis
      proof (cases "BodyErr r = None \<and> ?sig \<noteq> []")
        case False
        with tok post show ?thesis
          by (auto simp: webhookHandler_def ServeHTTP_def RateLimiter_Allow_token io_ReadAll_def
                Logger_Info_def Logger_Error_def Let_def split: option.splits)
      next
        case True
        then have b: "BodyErr r = None" and h: "?sig \<noteq> []" by simp_all
        obtain es where es: "events (snd (?P (Body r) (strings_TrimPrefix ?sig ''sha256='') ?w2))
                               = events ?w2 @ es"
          using Process_events by blast
        have "\<exists>tl. events (snd (respond (?P (Body r) (strings_TrimPrefix ?sig ''sha256='') ?w2)))
                 = events ?w2 @ tl"
          using es by (auto simp: respond_def Logger_Error_def split: prod.splits option.splits)
        then obtain tl where "events (snd (webhookHandler mac secret unmarshal now outcome r w))
                 = events ?w2 @ tl"
          unfolding webhookHandler_def ServeHTTP_reaches_processor [OF tok post b h] by blast
        then show ?thesis using tok post by simp
      qed
    qed
  qed
qed

theorem rate_limit_checked_first_witness:
  "status (fst (ServeHTTP
      (Process (HMACValidator_Validate scenario_mac scenario_secret) scenario_unmarshal
         (FirestoreRepository_Write 1700000001 None))
      (scenario_request ''GET'' (''sha256='' @ scenario_signature))
      (initial_world\<lparr>tokens := 0\<rparr>))) = 429
   \<and> snd (ServeHTTP
      (Process (HMACValidator_Validate scenario_mac scenario_secret) scenario_unmarshal
         (FirestoreRepository_Write 1700000001 None))
      (scenario_request ''GET'' (''sha256='' @ scenario_signature))
      (initial_world\<lparr>tokens := 0\<rparr>))
     = Logger_Info ''rate limit exceeded'' [Str ''203.0.113.7:40000'']
         (emit (RateChecked False) (initial_world\<lparr>tokens := 0\<rparr>))
   \<and> status (fst (ServeHTTP
      (Process (HMACValidator_Validate scenario_mac scenario_secret) scenario_unmarshal
         (FirestoreRepository_Write 1700000001 None))
      (scenario_request ''GET'' (''sha256='' @ scenario_signature)) initial_world)) = 405
   \<and> snd (ServeHTTP
      (Process (HMACValidator_Validate scenario_mac scenario_secret) scenario_unmarshal
         (FirestoreRepository_Write 1700000001 None))
      (scenario_request ''GET'' (''sha256='' @ scenario_signature)) initial_world)
     = emit (RateChecked True) (initial_world\<lparr>tokens := 19\<rparr>)"
proof -
  let ?P = "Process (HMACValidator_Validate scenario_mac scenario_secret) scenario_unmarshal
              (FirestoreRepository_Write 1700000001 None)"
  let ?get = "scenario_request ''GET'' (''sha256='' @ scenario_signature)"
  note i0 = rate_limit_checked_first
      [where w = "initial_world\<lparr>tokens := 0\<rparr>" and r = ?get and process = ?P,
       THEN conjunct1]
  note i1 = rate_limit_checked_first
      [where w = initial_world and r = ?get and process = ?P, THEN conjunct2, THEN conjunct1]
  have 0: "tokens (initial_world\<lparr>tokens := 0\<rparr>) = 0" by simp
  have 1: "0 < tokens initial_world \<and> Method ?get \<noteq> MethodPost"
    by (simp add: MethodPost_def)
  from i0 0 i1 1 show ?thesis
    by (simp add: scenario_request_def StatusTooManyRequests_def StatusMethodNotAllowed_def)
qed

text \<open>
  The claim C6 as stated puts the method check before the rate check: a GET request
  would be answered 405 with an exhausted bucket. It is answered 429.
\<close>

theorem method_check_after_rate_limit_counterexample:
  "status (fst (webhookHandler scenario_mac scenario_secret scenario_unmarshal 1700000001 None
      (scenario_request ''GET'' (''sha256='' @ scenario_signature))
      (initial_world\<lparr>tokens := 0\<rparr>))) = 429
   \<and> status (fst (webhookHandler scenario_mac scenario_secret scenario_unmarshal 1700000001 None
      (scenario_request ''GET'' (''sha256='' @ scenario_signature))
      (initial_world\<lparr>tokens := 0\<rparr>))) \<noteq> 405"
  by (simp add: webhookHandler_def ServeHTTP_def RateLimiter_Allow_def StatusTooManyRequests_def)

subsection \<open>The signature header\<close>

text \<open>
  Claim C7, as the code has it. For a POST request whose body was read and whose
  signature header is \<^verbatim>\<open>sha256=\<close> followed by \<open>s\<close>: the rate-limited handler
  of \<^verbatim>\<open>function.go\<close>, having been let through by the limiter, calls the
  processor with the body and exactly \<open>s\<close>, and answers from its result; the
  handler of the package \<^verbatim>\<open>handlers\<close> calls it with the header value as it
  came, prefix included.
\<close>

theorem ServeHTTP_strips_sha256_prefix:
  assumes "0 < tokens w" and "Method r = MethodPost" and "BodyErr r = None"
      and "Header_Get (Header r) ''X-Webhook-Signature'' = ''sha256='' @ s"
  shows "ServeHTTP process r w =
           respond (process (Body r) s
             (emit BodyRead (emit (RateChecked True) (w\<lparr>tokens := tokens w - 1\<rparr>))))
       \<and> handlers_ServeHTTP process r w =
           respond (process (Body r) (''sha256='' @ s) (emit BodyRead w))"
proof -
  have ne: "Header_Get (Header r) ''X-Webhook-Signature'' \<noteq> []"
    by (simp add: assms(4))
  have 1: "ServeHTTP process r w =
           respond (process (Body r) s
             (emit BodyRead (emit (RateChecked True) (w\<lparr>tokens := tokens w - 1\<rparr>))))"
    using ServeHTTP_reaches_processor [OF assms(1-3) ne, of process]
    unfolding assms(4) TrimPrefix_append .
  have 2: "handlers_ServeHTTP process r w =
           respond (process (Body r) (''sha256='' @ s) (emit BodyRead w))"
    using handlers_ServeHTTP_reaches_processor [OF assms(2,3) ne, of process w]
    unfolding assms(4) .
  from 1 2 show ?thesis ..
qed

theorem ServeHTTP_strips_sha256_prefix_witness:
  "0 < tokens initial_world
   \<and> Method (scenario_request ''POST'' (''sha256='' @ scenario_signature)) = MethodPost
   \<and> BodyErr (scenario_request ''POST'' (''sha256='' @ scenario_signature)) = None
   \<and> Header_Get (Header (scenario_request ''POST'' (''sha256='' @ scenario_signature)))
        ''X-Webhook-Signature'' = ''sha256='' @ scenario_signature
   \<and> ServeHTTP
        (Process (HMACValidator_Validate scenario_mac scenario_secret) scenario_unmarshal
           (FirestoreRepository_Write 1700000001 None))
        (scenario_request ''POST'' (''sha256='' @ scenario_signature)) initial_world
      = respond
          (Process (HMACValidator_Validate scenario_mac scenario_secret) scenario_unmarshal
             (FirestoreRepository_Write 1700000001 None)
             (Body (scenario_request ''POST'' (''sha256='' @ scenario_signature)))
             scenario_signature
             (emit BodyRead
                (emit (RateChecked True)
                   (initial_world\<lparr>tokens := tokens initial_world - 1\<rparr>))))
   \<and> status (fst (ServeHTTP
        (Process (HMACValidator_Validate scenario_mac scenario_secret) scenario_unmarshal
           (FirestoreRepository_Write 1700000001 None))
        (scenario_request ''POST'' (''sha256='' @ scenario_signature)) initial_world)) = 200"
proof -
  let ?P = "Process (HMACValidator_Validate scenario_mac scenario_secret) scenario_unmarshal
              (FirestoreRepository_Write 1700000001 None)"
  let ?req = "scenario_request ''POST'' (''sha256='' @ scenario_signature)"
  have t: "0 < tokens initial_world" by simp
  have m: "Method ?req = MethodPost" by (simp add: MethodPost_def)
  have b: "BodyErr ?req = None" by simp
  have h: "Header_Get (Header ?req) ''X-Webhook-Signature'' = ''sha256='' @ scenario_signature"
    by (simp only: scenario_request_simps)
  note i = ServeHTTP_strips_sha256_prefix [OF t m b h, of ?P, THEN conjunct1]
  have none: "fst (?P scenario_body scenario_signature w) = None" for w
    by (simp add: Process_result)
  have ok: "status (fst (respond out)) = 200" if "fst out = None" for out
    using that
    by (cases out) (simp add: respond_def StatusOK_def WriteHeader_def Write_body_def Header_Set_def)
  have st: "status (fst (ServeHTTP ?P ?req initial_world)) = 200"
    unfolding i by (simp only: scenario_request_simps ok [OF none])
  from t m b h i st show ?thesis by (intro conjI)
qed

text \<open>
  The claim C7 as stated covers the handler of the package \<^verbatim>\<open>handlers\<close>,
  and fails there: the request of scenario A, correctly signed and sent with the
  prefix, is answered 401 because the validator is handed the prefix; nothing is
  written. The same handler accepts the signature sent without the prefix.
\<close>

theorem handlers_keep_prefix_counterexample:
  "status (fst (handlers_ServeHTTP
      (Process (HMACValidator_Validate scenario_mac scenario_secret) scenario_unmarshal
         (FirebaseRepository_Write 1700000001000 None))
      (scenario_request ''POST'' (''sha256='' @ scenario_signature)) initial_world)) = 401
   \<and> snd (handlers_ServeHTTP
      (Process (HMACValidator_Validate scenario_mac scenario_secret) scenario_unmarshal
         (FirebaseRepository_Write 1700000001000 None))
      (scenario_request ''POST'' (''sha256='' @ scenario_signature)) initial_world)
     = Logger_Error ''failed to process webhook''
         (Err ''webhook validation failed: invalid signature'')
         (Logger_Error ''webhook validation failed'' (Err ''invalid signature'')
            (emit BodyRead initial_world))
   \<and> status (fst (handlers_ServeHTTP
      (Process (HMACValidator_Validate scenario_mac scenario_secret) scenario_unmarshal
         (FirebaseRepository_Write 1700000001000 None))
      (scenario_request ''POST'' scenario_signature) initial_world)) = 200"
proof -
  have ne: "''sha256='' @ scenario_signature \<noteq> []" "scenario_signature \<noteq> []"
    by (simp_all add: scenario_signature_def)
  show ?thesis
    using ne
    by (simp add: handlers_ServeHTTP_def MethodPost_def io_ReadAll_def Let_def Process_def
          FirebaseRepository_Write_def ref_Push_def StatusUnauthorized_def StatusOK_def
          WriteHeader_def Write_body_def Header_Set_def)
qed

text \<open>
  Claim C9. A POST request whose signature header is exactly \<^verbatim>\<open>sha256=\<close>,
  let through by the limiter and with its body read, is not taken for a request
  without the header: the header is not empty, the stripped signature is, the
  validator rejects it, and the assembled handler answers 401 without issuing a
  storage request or changing a document.
\<close>

theorem bare_prefix_is_rejected:
  assumes "0 < tokens w" and "Method r = MethodPost" and "BodyErr r = None"
      and "Header_Get (Header r) ''X-Webhook-Signature'' = ''sha256=''"
      and "length (mac secret (Body r)) = 32"
  shows "let sig = Header_Get (Header r) ''X-Webhook-Signature'';
             out = webhookHandler mac secret unmarshal now outcome r w
         in sig \<noteq> []
          \<and> strings_TrimPrefix sig ''sha256='' = []
          \<and> HMACValidator_Validate mac secret (Body r) [] = Some (Err ''invalid signature'')
          \<and> status (fst out) = 401
          \<and> writes_of (snd out) = writes_of w
          \<and> docs (snd out) = docs w"
proof -
  have ne: "Header_Get (Header r) ''X-Webhook-Signature'' \<noteq> []"
    by (simp add: assms(4))
  have trim: "strings_TrimPrefix ''sha256='' ''sha256='' = []"
    using TrimPrefix_append [of "''sha256=''" "[]"] by simp
  have "length (hex_EncodeToString (mac secret (Body r))) = 64"
    using assms(5) by (simp add: hex_length)
  then have hex: "hex_EncodeToString (mac secret (Body r)) \<noteq> []" by auto
  then have bad: "HMACValidator_Validate mac secret (Body r) [] = Some (Err ''invalid signature'')"
    by (auto simp: HMACValidator_Validate_def)
  show ?thesis
    unfolding Let_def webhookHandler_def ServeHTTP_reaches_processor [OF assms(1-3) ne]
    by (simp add: assms(4) trim bad Process_def respond_def Logger_Error_def
          StatusUnauthorized_def writes_of_def)
qed

theorem bare_prefix_is_rejected_witness:
  "(let sig = Header_Get (Header (scenario_request ''POST'' ''sha256='')) ''X-Webhook-Signature'';
        out = webhookHandler scenario_mac scenario_secret scenario_unmarshal 1700000001 None
                (scenario_request ''POST'' ''sha256='') initial_world
    in sig \<noteq> []
     \<and> strings_TrimPrefix sig ''sha256='' = []
     \<and> HMACValidator_Validate scenario_mac scenario_secret
          (Body (scenario_request ''POST'' ''sha256='')) [] = Some (Err ''invalid signature'')
     \<and> status (fst out) = 401
     \<and> writes_of (snd out) = writes_of initial_world
     \<and> docs (snd out) = docs initial_world)
   \<and> writes_of initial_world = []"
proof -
  let ?req = "scenario_request ''POST'' ''sha256=''"
  have t: "0 < tokens initial_world" by simp
  have m: "Method ?req = MethodPost" by (simp add: MethodPost_def)
  have b: "BodyErr ?req = None" by simp
  have h: "Header_Get (Header ?req) ''X-Webhook-Signature'' = ''sha256=''"
    by (simp only: scenario_request_simps)
  have l: "length (scenario_mac scenario_secret (Body ?req)) = 32"
    by (simp add: scenario_digest_length)
  from bare_prefix_is_rejected
         [where w = initial_world and r = ?req and mac = scenario_mac and secret = scenario_secret
            and unmarshal = scenario_unmarshal and now = 1700000001 and outcome = None,
          OF t m b h l]
    writes_of_initial
  show ?thesis by (intro conjI)
qed

end
